theory Spec2Isabelle
  imports Complex_Main "HOL-Library.Multiset"
begin

section \<open>Data model\<close>

text \<open>
  Times and durations are integer nanosecond counts, as \<open>time.Time\<close> readings of the
  monotonic clock and \<open>time.Duration\<close> are. A Go \<open>error\<close> is an \<open>error option\<close>, with
  \<open>None\<close> for \<open>nil\<close>.
\<close>

type_synonym time = int

datatype error =
    Canceled
  | DeadlineExceeded
  | Remote string
  | Errorf string error
  | Msg string
  | FailedToCollect nat string
  | Panic string

text \<open>
  \<open>Canceled\<close> and \<open>DeadlineExceeded\<close> are the two errors of package \<open>context\<close>;
  \<open>Remote\<close> is an error returned by the cloud SDK; \<open>Errorf p e\<close> is
  \<open>fmt.Errorf(p + ": %w", e)\<close>; \<open>FailedToCollect n s\<close> is
  \<open>fmt.Errorf("failed to collect %d " + s + " metrics", n)\<close>; \<open>Panic\<close> is a run-time panic.
\<close>

text \<open>
  \<open>MetricData\<close> of collector.go. The four statistics are \<open>float64\<close> in the source; the
  code only compares them with zero and passes them on, so they are modelled as reals.
\<close>

record MetricData =
  Timestamp :: int
  UserID :: string
  InstanceID :: string
  Device :: string
  Port :: string
  Protocol :: string
  Vip :: string
  State :: string
  Diskname :: string
  Sum :: real
  Maximum :: real
  Average :: real
  Minimum :: real

text \<open>The value selection that opens the body of the sample loop of \<open>CollectMetric\<close>
  (collector.go, lines 172-178) and of \<open>CollectSLBMetric\<close>.\<close>

definition sample_value :: "MetricData \<Rightarrow> real" where
  "sample_value data =
     (let value = Average data;
          value = (if value = 0 then Maximum data else value);
          value = (if value = 0 then Sum data else value)
      in value)"

section \<open>Caches\<close>

text \<open>The part of \<open>cms.DescribeMetricLastResponse\<close> that the exporter reads.\<close>

record Response =
  Datapoints :: string

record CacheEntry =
  Data :: Response
  EntryTimestamp :: time
  TTL :: time

text \<open>\<open>IsExpired\<close> reads the clock (\<open>time.Since\<close>); the reading is the first argument.\<close>

definition IsExpired :: "time \<Rightarrow> CacheEntry \<Rightarrow> bool" where
  "IsExpired now ce = (now - EntryTimestamp ce > TTL ce)"

text \<open>A Go map value of type \<open>map[string]string\<close>; \<open>None\<close> is the nil map.\<close>

type_synonym tags = "(string \<rightharpoonup> string) option"

record TagCache =
  tc_cache :: "string \<rightharpoonup> tags"
  tc_ttl :: time

definition NewTagCache :: "time \<Rightarrow> TagCache" where
  "NewTagCache ttl = \<lparr>tc_cache = Map.empty, tc_ttl = ttl\<rparr>"

text \<open>\<open>TagCache.Get\<close> returns the pair of the source; a missing key gives the zero value
  of the map type, the nil map.\<close>

definition TagCache_Get :: "TagCache \<Rightarrow> string \<Rightarrow> tags \<times> bool" where
  "TagCache_Get tc key =
     (case tc_cache tc key of
        None \<Rightarrow> (None, False)
      | Some tgs \<Rightarrow> (tgs, True))"

definition TagCache_Set :: "TagCache \<Rightarrow> string \<Rightarrow> tags \<Rightarrow> TagCache" where
  "TagCache_Set tc key tgs = tc\<lparr>tc_cache := (tc_cache tc)(key \<mapsto> tgs)\<rparr>"

record MetricCache =
  mc_cache :: "string \<rightharpoonup> CacheEntry"
  mc_ttl :: time

definition NewMetricCache :: "time \<Rightarrow> MetricCache" where
  "NewMetricCache ttl = \<lparr>mc_cache = Map.empty, mc_ttl = ttl\<rparr>"

definition MetricCache_Get :: "time \<Rightarrow> MetricCache \<Rightarrow> string \<Rightarrow> Response option \<times> bool" where
  "MetricCache_Get now mc key =
     (case mc_cache mc key of
        None \<Rightarrow> (None, False)
      | Some entry \<Rightarrow>
          if IsExpired now entry then (None, False) else (Some (Data entry), True))"

definition MetricCache_Set :: "time \<Rightarrow> MetricCache \<Rightarrow> string \<Rightarrow> Response \<Rightarrow> MetricCache" where
  "MetricCache_Set now mc key data =
     mc\<lparr>mc_cache := (mc_cache mc)(key \<mapsto>
          \<lparr>Data = data, EntryTimestamp = now, TTL = mc_ttl mc\<rparr>)\<rparr>"

definition MetricCache_Clear :: "time \<Rightarrow> MetricCache \<Rightarrow> MetricCache" where
  "MetricCache_Clear now mc =
     mc\<lparr>mc_cache := (\<lambda>key. case mc_cache mc key of
                                None \<Rightarrow> None
                              | Some entry \<Rightarrow> if IsExpired now entry then None else Some entry)\<rparr>"

definition second :: time where
  "second = 1000000000"

definition minute :: time where
  "minute = 60 * second"

section \<open>Rate limiter\<close>

text \<open>
  The token channel holds values of type \<open>struct{}\<close>, so its content is the number of
  buffered values. The ticker's channel \<open>ticker.C\<close> has room for one tick; \<open>tick_pending\<close>
  says that a tick is buffered there. \<open>cancelled\<close> is the state of \<open>rl.ctx\<close>, and
  \<open>refill_exited\<close> says that the goroutine running \<open>refillTokens\<close> has returned.
\<close>

record RateLimiter =
  tokens :: nat
  burst :: int
  requests :: int
  period :: time
  cancelled :: bool
  ticker_stopped :: bool
  tick_pending :: bool
  refill_exited :: bool

text \<open>
  \<open>NewRateLimiter\<close>. \<open>make(chan struct{}, burst)\<close> panics on a negative size, the
  division \<open>time.Second / time.Duration(requestsPerSecond)\<close> (truncating, as Go's integer
  division is) panics on zero, and \<open>time.NewTicker\<close> panics on an interval that is not
  positive. The fill loop sends \<open>burst\<close> values into a channel of capacity \<open>burst\<close>, so
  no send blocks.
\<close>

definition NewRateLimiter :: "int \<Rightarrow> int \<Rightarrow> error + RateLimiter" where
  "NewRateLimiter requestsPerSecond brst =
     (if brst < 0 then Inl (Panic ''makechan: size out of range'')
      else if requestsPerSecond = 0 then Inl (Panic ''integer divide by zero'')
      else
        let d = (if requestsPerSecond < 0 then - (second div (- requestsPerSecond))
                 else second div requestsPerSecond)
        in if d \<le> 0 then Inl (Panic ''non-positive interval for NewTicker'')
           else Inr \<lparr>tokens = nat brst, burst = brst, requests = requestsPerSecond,
                     period = d, cancelled = False, ticker_stopped = False,
                     tick_pending = False, refill_exited = False\<rparr>)"

text \<open>
  What happens around a rate limiter, one atomic step at a time: the run-time timer of the
  ticker fires; the refill goroutine runs one iteration of its loop (the flag is the
  choice its outer \<open>select\<close> makes when both of its cases are ready: \<open>True\<close> for
  \<open>rl.ctx.Done()\<close>); the context handed to \<open>Wait\<close> ends with the given error; another
  goroutine calls \<open>Close\<close>.
\<close>

datatype event = TickerFire | RefillStep bool | ParentDone error | CloseCall

text \<open>A ticker that is stopped sends nothing; a tick that finds the channel full is
  dropped.\<close>

definition ticker_fire :: "RateLimiter \<Rightarrow> RateLimiter" where
  "ticker_fire rl =
     (if ticker_stopped rl \<or> tick_pending rl then rl else rl\<lparr>tick_pending := True\<rparr>)"

text \<open>
  One iteration of the loop of \<open>refillTokens\<close>. \<open>waiting\<close> says that a \<open>Wait\<close> is
  blocked receiving from the token channel: then the non-blocking send hands the token to
  it (first component \<open>True\<close>). Otherwise the send succeeds when the buffer has room and
  is skipped when the bucket is full. With no case ready the \<open>select\<close> blocks and
  nothing changes.
\<close>

definition refillTokens_step :: "bool \<Rightarrow> bool \<Rightarrow> RateLimiter \<Rightarrow> bool \<times> RateLimiter" where
  "refillTokens_step pick_done waiting rl =
     (if refill_exited rl then (False, rl)
      else if cancelled rl \<and> (\<not> tick_pending rl \<or> pick_done)
        then (False, rl\<lparr>refill_exited := True\<rparr>)
      else if tick_pending rl then
        (if waiting then (True, rl\<lparr>tick_pending := False\<rparr>)
         else if int (tokens rl) < burst rl
           then (False, rl\<lparr>tick_pending := False, tokens := tokens rl + 1\<rparr>)
         else (False, rl\<lparr>tick_pending := False\<rparr>))
      else (False, rl))"

text \<open>\<open>Close\<close> cancels \<open>rl.ctx\<close> and stops the ticker; a tick already buffered in
  \<open>ticker.C\<close> stays there.\<close>

definition Close :: "RateLimiter \<Rightarrow> RateLimiter" where
  "Close rl = rl\<lparr>cancelled := True, ticker_stopped := True\<rparr>"

text \<open>An event while no \<open>Wait\<close> is in flight.\<close>

fun idle_event :: "event \<Rightarrow> RateLimiter \<Rightarrow> RateLimiter" where
  "idle_event TickerFire rl = ticker_fire rl"
| "idle_event (RefillStep p) rl = snd (refillTokens_step p False rl)"
| "idle_event (ParentDone e) rl = rl"
| "idle_event CloseCall rl = Close rl"

text \<open>
  The surroundings of one call of \<open>Wait\<close>: the state of the caller's context on entry
  (\<open>None\<close>: not done), the choice of the \<open>select\<close> of \<open>Wait\<close> when both of its cases
  are ready (\<open>True\<close> for \<open>timeoutCtx.Done()\<close>), and the events that happen while the
  call is blocked, before its own five-second timeout. When they are used up, the
  timeout fires.
\<close>

record wait_env =
  ctx_done :: "error option"
  pick_done :: bool
  events :: "event list"

text \<open>The \<open>select\<close> of \<open>Wait\<close> on entry; \<open>None\<close> when no case is ready.\<close>

definition Wait_select :: "bool \<Rightarrow> error option \<Rightarrow> RateLimiter \<Rightarrow> (error option \<times> RateLimiter) option" where
  "Wait_select pick ctx rl =
     (case ctx of
        Some e \<Rightarrow>
          if 0 < tokens rl \<and> \<not> pick then Some (None, rl\<lparr>tokens := tokens rl - 1\<rparr>)
          else Some (Some e, rl)
      | None \<Rightarrow>
          if 0 < tokens rl then Some (None, rl\<lparr>tokens := tokens rl - 1\<rparr>)
          else None)"

fun Wait_blocked :: "event list \<Rightarrow> RateLimiter \<Rightarrow> error option \<times> RateLimiter" where
  "Wait_blocked [] rl = (Some DeadlineExceeded, rl)"
| "Wait_blocked (TickerFire # evs) rl = Wait_blocked evs (ticker_fire rl)"
| "Wait_blocked (RefillStep p # evs) rl =
     (case refillTokens_step p True rl of
        (True, rl') \<Rightarrow> (None, rl')
      | (False, rl') \<Rightarrow> Wait_blocked evs rl')"
| "Wait_blocked (ParentDone e # evs) rl = (Some e, rl)"
| "Wait_blocked (CloseCall # evs) rl = Wait_blocked evs (Close rl)"

definition Wait :: "wait_env \<Rightarrow> RateLimiter \<Rightarrow> error option \<times> RateLimiter" where
  "Wait env rl =
     (case Wait_select (pick_done env) (ctx_done env) rl of
        Some r \<Rightarrow> r
      | None \<Rightarrow> Wait_blocked (events env) rl)"

text \<open>
  Consecutive calls of \<open>Wait\<close>, one per element of the list, with nothing happening
  between them. Each result says whether the call had to block and what it returned.
\<close>

fun Wait_seq :: "wait_env list \<Rightarrow> RateLimiter \<Rightarrow> (bool \<times> error option) list \<times> RateLimiter" where
  "Wait_seq [] rl = ([], rl)"
| "Wait_seq (env # envs) rl =
     (let (r, rl') = Wait env rl;
          (rs, rl'') = Wait_seq envs rl'
      in ((Wait_select (pick_done env) (ctx_done env) rl = None, r) # rs, rl''))"

section \<open>Client\<close>

text \<open>
  The interactions of the client with the rate limiter and with the remote API, in the
  order in which they happen. The list \<open>calls\<close> of a client is not a field of the
  source: it records these interactions so that statements can say which of them an
  operation performs.
\<close>

datatype call =
    RateLimiterWait
  | DescribeMetricLastCall string string
  | DescribeLoadBalancersCall string
  | DescribeMetricMetaListCall
  | Printf string error

record Client =
  region :: string
  rateLimiter :: RateLimiter
  cache :: MetricCache
  tagCache :: TagCache
  calls :: "call list"

text \<open>
  The surroundings of one call of \<open>GetMetricData\<close>: the clock when the cache is read, the
  surroundings of the \<open>Wait\<close>, the answer of the remote \<open>DescribeMetricLast\<close> for a
  namespace and a metric name, and the clock when the response is stored.
\<close>

record fetch_env =
  now_get :: time
  limiter :: wait_env
  DescribeMetricLast :: "string \<Rightarrow> string \<Rightarrow> error + Response"
  now_set :: time

text \<open>
  \<open>GetMetricData\<close>. \<open>MetricCache.Get\<close> returns a response together with \<open>found = True\<close>
  and none otherwise, so the test of \<open>found\<close> is the first case below.
\<close>

definition GetMetricData :: "fetch_env \<Rightarrow> Client \<Rightarrow> string \<Rightarrow> string \<Rightarrow> (error + Response) \<times> Client" where
  "GetMetricData env c namespace metricName =
     (let cacheKey = namespace @ '':'' @ metricName in
      case MetricCache_Get (now_get env) (cache c) cacheKey of
        (Some cachedData, True) \<Rightarrow> (Inr cachedData, c)
      | _ \<Rightarrow>
          (case Wait (limiter env) (rateLimiter c) of
             (Some err, rl) \<Rightarrow>
               (Inl (Errorf ''rate limiter wait failed'' err),
                c\<lparr>rateLimiter := rl, calls := calls c @ [RateLimiterWait]\<rparr>)
           | (None, rl) \<Rightarrow>
               (let c1 = c\<lparr>rateLimiter := rl,
                           calls := calls c @ [RateLimiterWait,
                                               DescribeMetricLastCall namespace metricName]\<rparr>
                in case DescribeMetricLast env namespace metricName of
                     Inl err \<Rightarrow>
                       (Inl (Errorf (''failed to get metric data for '' @ namespace @ ''/''
                                       @ metricName) err), c1)
                   | Inr response \<Rightarrow>
                       (Inr response,
                        c1\<lparr>cache := MetricCache_Set (now_set env) (cache c1) cacheKey response\<rparr>))))"

text \<open>\<open>Health\<close> asks the remote API for one metric description; the answer is the
  first argument.\<close>

definition Health :: "error option \<Rightarrow> Client \<Rightarrow> error option \<times> Client" where
  "Health answer c =
     (let c1 = c\<lparr>calls := calls c @ [DescribeMetricMetaListCall]\<rparr> in
      case answer of
        Some err \<Rightarrow> (Some (Errorf ''health check failed'' err), c1)
      | None \<Rightarrow> (None, c1))"

definition GetRegion :: "Client \<Rightarrow> string" where
  "GetRegion c = region c"

text \<open>A load balancer of a \<open>DescribeLoadBalancers\<close> response: its identifier and its tags
  as pairs of \<open>TagKey\<close> and \<open>TagValue\<close>.\<close>

record LoadBalancer =
  LoadBalancerId :: string
  Tags :: "(string \<times> string) list"

text \<open>
  The surroundings of one call of \<open>GetSLBInstanceTags\<close>: the order in which this call's
  \<open>range\<close> visits the keys of \<open>c.slbClients\<close> (the run time chooses it), and for each
  region the surroundings of the \<open>Wait\<close> made for it and the answer of its
  \<open>DescribeLoadBalancers\<close>.
\<close>

record tags_env =
  region_order :: "string list"
  region_wait :: "string \<Rightarrow> wait_env"
  DescribeLoadBalancers :: "string \<Rightarrow> error + LoadBalancer list"

text \<open>The loop that reads the tag cache (lines 366-372 of the client's source file, as
  the line numbers below).\<close>

fun check_cache :: "TagCache \<Rightarrow> string list \<Rightarrow> (string \<rightharpoonup> tags) \<times> string list
    \<Rightarrow> (string \<rightharpoonup> tags) \<times> string list" where
  "check_cache tc [] acc = acc"
| "check_cache tc (iid # ids) (tagsMap, uncachedIDs) =
     (case TagCache_Get tc iid of
        (tgs, True) \<Rightarrow> check_cache tc ids (tagsMap(iid \<mapsto> tgs), uncachedIDs)
      | (tgs, False) \<Rightarrow> check_cache tc ids (tagsMap, uncachedIDs @ [iid]))"

text \<open>
  The loop over the load balancers of one response (lines 413-431). The set
  \<open>uncachedSet\<close> of the source is a list without repetitions here.
\<close>

fun process_lbs :: "LoadBalancer list \<Rightarrow> (string \<rightharpoonup> tags) \<times> string list \<times> TagCache
    \<Rightarrow> (string \<rightharpoonup> tags) \<times> string list \<times> TagCache" where
  "process_lbs [] st = st"
| "process_lbs (lb # lbs) (tagsMap, uncachedSet, tc) =
     (if LoadBalancerId lb \<notin> set uncachedSet then process_lbs lbs (tagsMap, uncachedSet, tc)
      else
        let instanceTags = fold (\<lambda>(k, v) m. m(k \<mapsto> v)) (Tags lb) Map.empty
        in process_lbs lbs
             (tagsMap(LoadBalancerId lb \<mapsto> Some instanceTags),
              removeAll (LoadBalancerId lb) uncachedSet,
              TagCache_Set tc (LoadBalancerId lb) (Some instanceTags)))"

text \<open>The loop over the regions (lines 386-432). The first component of the result is
  the error of the early return.\<close>

fun regions_loop :: "tags_env \<Rightarrow> string list \<Rightarrow> (string \<rightharpoonup> tags) \<times> string list \<times> Client
    \<Rightarrow> error option \<times> (string \<rightharpoonup> tags) \<times> string list \<times> Client" where
  "regions_loop env [] st = (None, st)"
| "regions_loop env (rgn # rest) (tagsMap, uncachedSet, c) =
     (if length uncachedSet = 0 then (None, tagsMap, uncachedSet, c)
      else
        case Wait (region_wait env rgn) (rateLimiter c) of
          (Some err, rl) \<Rightarrow>
            (Some (Errorf ''rate limiter error'' err), tagsMap, uncachedSet,
             c\<lparr>rateLimiter := rl, calls := calls c @ [RateLimiterWait]\<rparr>)
        | (None, rl) \<Rightarrow>
            (let c1 = c\<lparr>rateLimiter := rl,
                        calls := calls c @ [RateLimiterWait, DescribeLoadBalancersCall rgn]\<rparr>
             in case DescribeLoadBalancers env rgn of
                  Inl err \<Rightarrow>
                    regions_loop env rest
                      (tagsMap, uncachedSet, c1\<lparr>calls := calls c1 @ [Printf rgn err]\<rparr>)
                | Inr lbs \<Rightarrow>
                    (case process_lbs lbs (tagsMap, uncachedSet, tagCache c1) of
                       (tagsMap', uncachedSet', tc') \<Rightarrow>
                         regions_loop env rest (tagsMap', uncachedSet', c1\<lparr>tagCache := tc'\<rparr>))))"

text \<open>The closing loop that caches an empty tag set for every identifier still in
  \<open>uncachedSet\<close> (lines 435-439). Its iterations write distinct keys.\<close>

fun cache_empty :: "string list \<Rightarrow> (string \<rightharpoonup> tags) \<times> TagCache \<Rightarrow> (string \<rightharpoonup> tags) \<times> TagCache" where
  "cache_empty [] st = st"
| "cache_empty (remainingID # ids) (tagsMap, tc) =
     cache_empty ids (tagsMap(remainingID \<mapsto> Some Map.empty),
                      TagCache_Set tc remainingID (Some Map.empty))"

text \<open>
  \<open>GetSLBInstanceTags\<close>. The returned map is \<open>Some\<close> of its content: every return of
  the source gives a map made by \<open>make\<close>, never the nil map.
\<close>

definition GetSLBInstanceTags :: "tags_env \<Rightarrow> Client \<Rightarrow> string list
    \<Rightarrow> ((string \<rightharpoonup> tags) option \<times> error option) \<times> Client" where
  "GetSLBInstanceTags env c instanceIDs =
     (if length instanceIDs = 0 then ((Some Map.empty, None), c)
      else
        case check_cache (tagCache c) instanceIDs (Map.empty, []) of
          (tagsMap, uncachedIDs) \<Rightarrow>
            if length uncachedIDs = 0 then ((Some tagsMap, None), c)
            else
              (case regions_loop env (region_order env) (tagsMap, remdups uncachedIDs, c) of
                 (Some err, tagsMap', uncachedSet, c') \<Rightarrow> ((Some tagsMap', Some err), c')
               | (None, tagsMap', uncachedSet, c') \<Rightarrow>
                   (case cache_empty uncachedSet (tagsMap', tagCache c') of
                      (tagsMap'', tc) \<Rightarrow> ((Some tagsMap'', None), c'\<lparr>tagCache := tc\<rparr>))))"

section \<open>Collectors\<close>

text \<open>\<open>ServiceConfig\<close> of config.go, without the scrape interval, which no collector
  reads.\<close>

record ServiceConfig =
  Enabled :: bool
  Namespace :: string
  Metrics :: "string list"

text \<open>
  A descriptor made by \<open>prometheus.NewDesc\<close>: its name and its variable labels (help text
  and constant labels play no part below). What is sent on the channel \<open>ch\<close> is a constant
  metric made by \<open>prometheus.NewConstMetric\<close> or one of the counters, gauges and histograms
  that a collector or the exporter owns.
\<close>

record Desc =
  fqName :: string
  variableLabels :: "string list"

datatype Metric =
    ConstMetric Desc real "string list"
  | ServiceScrapeErrors string
  | ServiceScrapeDuration string
  | Up
  | TotalScrapes
  | ScrapeErrors
  | ScrapeDuration
  | LastScrapeTime
  | LastScrapeError

text \<open>A log line: its level, its message, and the error (and for \<open>MetricError\<close> the
  metric name) in its fields.\<close>

datatype log_entry =
    Debug string
  | Warn string error
  | Error string error
  | MetricError string string error

text \<open>
  Two library functions are parameters: \<open>json.Unmarshal\<close> into a slice of \<open>MetricData\<close>,
  and the validation that \<open>prometheus.NewConstMetric\<close> makes of a descriptor and label
  values before it builds the metric.
\<close>

record lib =
  Unmarshal :: "string \<Rightarrow> error + MetricData list"
  validate :: "Desc \<Rightarrow> string list \<Rightarrow> error option"

definition NewConstMetric :: "lib \<Rightarrow> Desc \<Rightarrow> real \<Rightarrow> string list \<Rightarrow> error + Metric" where
  "NewConstMetric l desc v labelValues =
     (case validate l desc labelValues of
        Some err \<Rightarrow> Inl err
      | None \<Rightarrow> Inr (ConstMetric desc v labelValues))"

definition BuildFQName :: "string \<Rightarrow> string \<Rightarrow> string \<Rightarrow> string" where
  "BuildFQName namespace subsystem name =
     (if name = '''' then ''''
      else if namespace \<noteq> '''' \<and> subsystem \<noteq> '''' then namespace @ ''_'' @ subsystem @ ''_'' @ name
      else if namespace \<noteq> '''' then namespace @ ''_'' @ name
      else if subsystem \<noteq> '''' then subsystem @ ''_'' @ name
      else name)"

text \<open>
  \<open>BaseCollector\<close>. The counter \<open>scrapeErrors\<close> is its count, the histogram
  \<open>scrapeDuration\<close> the list of its observations. The client and the logger, shared with
  the other collectors, are in the world below.
\<close>

record BaseCollector =
  config :: ServiceConfig
  serviceName :: string
  metricDescs :: "string \<rightharpoonup> Desc"
  metricPrefix :: string
  lastScrape :: time
  scrapeErrors :: nat
  scrapeDuration :: "time list"

definition initMetricDescriptors :: "BaseCollector \<Rightarrow> BaseCollector" where
  "initMetricDescriptors bc =
     bc\<lparr>metricDescs :=
          fold (\<lambda>metricName descs.
                  let labels = [''instance_id''];
                      labels = (if serviceName bc = ''slb''
                                then labels @ [''protocol'', ''port'', ''vip''] else labels)
                  in descs(metricName \<mapsto>
                       \<lparr>fqName = BuildFQName (metricPrefix bc) (serviceName bc) metricName,
                        variableLabels = labels\<rparr>))
               (Metrics (config bc)) (metricDescs bc)\<rparr>"

definition NewBaseCollector :: "ServiceConfig \<Rightarrow> string \<Rightarrow> string \<Rightarrow> BaseCollector" where
  "NewBaseCollector cfg name prefix =
     initMetricDescriptors
       \<lparr>config = cfg, serviceName = name, metricDescs = Map.empty, metricPrefix = prefix,
        lastScrape = 0, scrapeErrors = 0, scrapeDuration = []\<rparr>"

text \<open>What the collectors of one scrape share and write: the client, the channel \<open>ch\<close>
  (the metrics sent so far) and the lines the collectors have logged.\<close>

record World =
  client :: Client
  ch :: "Metric list"
  logged :: "log_entry list"

definition buildLabelValues :: "BaseCollector \<Rightarrow> MetricData \<Rightarrow> string list" where
  "buildLabelValues bc data =
     (if serviceName bc = ''slb''
      then [InstanceID data, Protocol data, Port data, Vip data]
      else [InstanceID data])"

text \<open>The sample loop of \<open>CollectMetric\<close> (lines 171-193).\<close>

fun emit_metrics :: "lib \<Rightarrow> BaseCollector \<Rightarrow> string \<Rightarrow> Desc \<Rightarrow> MetricData list \<Rightarrow> World
    \<Rightarrow> error option \<times> World" where
  "emit_metrics l bc metricName desc [] w = (None, w)"
| "emit_metrics l bc metricName desc (data # rest) w =
     (let labelValues = buildLabelValues bc data in
      case NewConstMetric l desc (sample_value data) labelValues of
        Inl err \<Rightarrow> (Some (Errorf (''failed to create metric for '' @ metricName) err), w)
      | Inr metric \<Rightarrow> emit_metrics l bc metricName desc rest (w\<lparr>ch := ch w @ [metric]\<rparr>))"

definition CollectMetric :: "lib \<Rightarrow> fetch_env \<Rightarrow> BaseCollector \<Rightarrow> string \<Rightarrow> World
    \<Rightarrow> error option \<times> World" where
  "CollectMetric l env bc metricName w =
     (case GetMetricData env (client w) (Namespace (config bc)) metricName of
        (Inl err, c) \<Rightarrow>
          (Some (Errorf (''failed to get metric '' @ metricName) err), w\<lparr>client := c\<rparr>)
      | (Inr response, c) \<Rightarrow>
          if Datapoints response = '''' then (None, w\<lparr>client := c\<rparr>)
          else
            (case Unmarshal l (Datapoints response) of
               Inl err \<Rightarrow>
                 (Some (Errorf (''failed to unmarshal metric data for '' @ metricName) err),
                  w\<lparr>client := c\<rparr>)
             | Inr metricData \<Rightarrow>
                 (case metricDescs bc metricName of
                    None \<Rightarrow>
                      (Some (Msg (''metric descriptor not found for '' @ metricName)),
                       w\<lparr>client := c\<rparr>)
                  | Some desc \<Rightarrow>
                      emit_metrics l bc metricName desc metricData (w\<lparr>client := c\<rparr>))))"

subsection \<open>Tag enrichment\<close>

text \<open>
  \<open>buildDynamicSLBLabelValues\<close> as the collector without the region label has it, then as
  the collector with the region label has it, and \<open>buildSLBLabelValues\<close> of the collector
  without the region label.
\<close>

definition tag_or_empty :: "(string \<rightharpoonup> string) \<Rightarrow> string \<Rightarrow> string" where
  "tag_or_empty t key = (case t key of Some val \<Rightarrow> val | None \<Rightarrow> '''')"

definition buildDynamicSLBLabelValues :: "MetricData \<Rightarrow> tags \<Rightarrow> string list \<Rightarrow> string list" where
  "buildDynamicSLBLabelValues data tgs tagKeys =
     (let labelValues = [InstanceID data, Protocol data, Port data, Vip data];
          team = (case tgs of None \<Rightarrow> '''' | Some t \<Rightarrow> tag_or_empty t ''team'');
          grp = (case tgs of None \<Rightarrow> '''' | Some t \<Rightarrow> tag_or_empty t ''Group'');
          name = (case tgs of None \<Rightarrow> '''' | Some t \<Rightarrow> tag_or_empty t ''Name'')
      in labelValues @ [team, grp, name])"

definition buildDynamicSLBLabelValuesWithRegion :: "Client \<Rightarrow> MetricData \<Rightarrow> tags \<Rightarrow> string
    \<Rightarrow> string list \<Rightarrow> string list" where
  "buildDynamicSLBLabelValuesWithRegion c data tgs rgn tagKeys =
     (let instanceRegion = (if rgn = '''' then GetRegion c else rgn);
          labelValues = [InstanceID data, Protocol data, Port data, Vip data, instanceRegion];
          team = (case tgs of None \<Rightarrow> '''' | Some t \<Rightarrow> tag_or_empty t ''team'');
          grp = (case tgs of None \<Rightarrow> '''' | Some t \<Rightarrow> tag_or_empty t ''Group'');
          name = (case tgs of None \<Rightarrow> '''' | Some t \<Rightarrow> tag_or_empty t ''Name'')
      in labelValues @ [team, grp, name])"

definition buildSLBLabelValues :: "BaseCollector \<Rightarrow> MetricData \<Rightarrow> tags \<Rightarrow> string list" where
  "buildSLBLabelValues bc data tgs =
     (if serviceName bc = ''slb'' then
        (let team = (case tgs of None \<Rightarrow> '''' | Some t \<Rightarrow> tag_or_empty t ''Team'');
             grp = (case tgs of None \<Rightarrow> '''' | Some t \<Rightarrow> tag_or_empty t ''Group'');
             name = (case tgs of None \<Rightarrow> '''' | Some t \<Rightarrow> tag_or_empty t ''Name'')
         in [InstanceID data, Protocol data, Port data, Vip data, team, grp, name])
      else buildLabelValues bc data)"

text \<open>Indexing a map of tag maps: a nil map and a missing key give the nil map.\<close>

definition tags_of :: "(string \<rightharpoonup> tags) option \<Rightarrow> string \<Rightarrow> tags" where
  "tags_of tagsMap key =
     (case tagsMap of
        None \<Rightarrow> None
      | Some m \<Rightarrow> (case m key of None \<Rightarrow> None | Some tgs \<Rightarrow> tgs))"

text \<open>The sample loop of \<open>CollectSLBMetric\<close>.\<close>

fun emit_slb_metrics :: "lib \<Rightarrow> string \<Rightarrow> Desc \<Rightarrow> string list \<Rightarrow> (string \<rightharpoonup> tags) option
    \<Rightarrow> MetricData list \<Rightarrow> World \<Rightarrow> error option \<times> World" where
  "emit_slb_metrics l metricName dynamicDesc tagKeys tagsMap [] w = (None, w)"
| "emit_slb_metrics l metricName dynamicDesc tagKeys tagsMap (data # rest) w =
     (let labelValues =
            buildDynamicSLBLabelValues data (tags_of tagsMap (InstanceID data)) tagKeys in
      case NewConstMetric l dynamicDesc (sample_value data) labelValues of
        Inl err \<Rightarrow> (Some (Errorf (''failed to create metric for '' @ metricName) err), w)
      | Inr metric \<Rightarrow>
          emit_slb_metrics l metricName dynamicDesc tagKeys tagsMap rest
            (w\<lparr>ch := ch w @ [metric]\<rparr>))"

text \<open>The surroundings of the collection of one metric: those of the metric fetch and,
  for the load balancer collector, those of the tag lookup.\<close>

record metric_env =
  fetch :: fetch_env
  tag_lookup :: tags_env

text \<open>
  \<open>CollectSLBMetric\<close> of the collector without the region label. The distinct instance
  identifiers are gathered through a map in the source; they are listed here in the order
  of their last occurrence, and the tag lookup does not depend on their order.
\<close>

definition CollectSLBMetric :: "lib \<Rightarrow> metric_env \<Rightarrow> BaseCollector \<Rightarrow> string \<Rightarrow> World
    \<Rightarrow> error option \<times> World" where
  "CollectSLBMetric l env bc metricName w =
     (case GetMetricData (fetch env) (client w) (Namespace (config bc)) metricName of
        (Inl err, c) \<Rightarrow>
          (Some (Errorf (''failed to get metric '' @ metricName) err), w\<lparr>client := c\<rparr>)
      | (Inr response, c) \<Rightarrow>
          if Datapoints response = '''' then (None, w\<lparr>client := c\<rparr>)
          else
            (case Unmarshal l (Datapoints response) of
               Inl err \<Rightarrow>
                 (Some (Errorf (''failed to unmarshal metric data for '' @ metricName) err),
                  w\<lparr>client := c\<rparr>)
             | Inr metricData \<Rightarrow>
                 (let instanceIDs =
                        remdups (filter (\<lambda>i. i \<noteq> '''') (map InstanceID metricData));
                      (tagsMap, w1) =
                        (if length instanceIDs > 0 then
                           (case GetSLBInstanceTags (tag_lookup env) c instanceIDs of
                              ((tm, Some err), c') \<Rightarrow>
                                (Some Map.empty,
                                 w\<lparr>client := c',
                                   logged := logged w @
                                     [Warn ''Failed to get SLB instance tags, continuing without tags''
                                        err]\<rparr>)
                            | ((tm, None), c') \<Rightarrow> (tm, w\<lparr>client := c'\<rparr>))
                         else (Some Map.empty, w\<lparr>client := c\<rparr>));
                      tagKeys = [''Team'', ''Group'', ''Name''];
                      labels = [''instance_id'', ''protocol'', ''port'', ''vip''] @ tagKeys;
                      dynamicDesc =
                        \<lparr>fqName = BuildFQName (metricPrefix bc) (serviceName bc) metricName,
                         variableLabels = labels\<rparr>
                  in emit_slb_metrics l metricName dynamicDesc tagKeys tagsMap metricData w1)))"

subsection \<open>Collecting a metric list\<close>

text \<open>
  The surroundings of one call of \<open>Collect\<close>: the three clock readings (at the start, and
  in the deferred function for the duration and for the time of the last scrape), for
  the metric at each position of the configured list the surroundings of its collection,
  and the order in which the goroutines of the database collector run.
\<close>

record collect_env =
  t_start :: time
  t_since :: time
  t_last :: time
  metric_envs :: "nat \<Rightarrow> metric_env"
  goroutine_order :: "(nat \<times> string) list"

text \<open>
  The loop over the metric names that \<open>RedisCollector.Collect\<close> and
  \<open>SLBCollector.Collect\<close> share, over the names paired with their positions. The first
  argument is the method that collects one metric, the second the service's name in the
  log line.
\<close>

fun collect_loop :: "(metric_env \<Rightarrow> string \<Rightarrow> World \<Rightarrow> error option \<times> World) \<Rightarrow> string
    \<Rightarrow> (nat \<Rightarrow> metric_env) \<Rightarrow> (nat \<times> string) list \<Rightarrow> nat \<times> World \<Rightarrow> nat \<times> World" where
  "collect_loop f svc envs [] st = st"
| "collect_loop f svc envs ((i, metricName) # rest) (errorCount, w) =
     (case f (envs i) metricName w of
        (Some err, w') \<Rightarrow>
          collect_loop f svc envs rest
            (errorCount + 1,
             w'\<lparr>logged := logged w' @
                  [MetricError (''Error collecting '' @ svc @ '' metric'') metricName err]\<rparr>)
      | (None, w') \<Rightarrow> collect_loop f svc envs rest (errorCount, w'))"

text \<open>The opening of every \<open>Collect\<close> (the debug line and the two internal metrics
  sent first), and its deferred function.\<close>

definition start_scrape :: "string \<Rightarrow> BaseCollector \<Rightarrow> World \<Rightarrow> World" where
  "start_scrape svc bc w =
     w\<lparr>logged := logged w @ [Debug (''Starting '' @ svc @ '' metrics collection'')],
       ch := ch w @ [ServiceScrapeErrors (serviceName bc),
                     ServiceScrapeDuration (serviceName bc)]\<rparr>"

definition finish_scrape :: "collect_env \<Rightarrow> BaseCollector \<Rightarrow> BaseCollector" where
  "finish_scrape env bc =
     bc\<lparr>scrapeDuration := scrapeDuration bc @ [t_since env - t_start env],
        lastScrape := t_last env\<rparr>"

definition RecordScrapeError :: "BaseCollector \<Rightarrow> BaseCollector" where
  "RecordScrapeError bc = bc\<lparr>scrapeErrors := scrapeErrors bc + 1\<rparr>"

definition RedisCollector_Collect :: "lib \<Rightarrow> collect_env \<Rightarrow> BaseCollector \<Rightarrow> World
    \<Rightarrow> error option \<times> BaseCollector \<times> World" where
  "RedisCollector_Collect l env bc w =
     (if \<not> Enabled (config bc) then (None, bc, w)
      else
        case collect_loop (\<lambda>e. CollectMetric l (fetch e) bc) ''Redis'' (metric_envs env)
                  (enumerate 0 (Metrics (config bc))) (0, start_scrape ''Redis'' bc w) of
             (errorCount, w') \<Rightarrow>
               if errorCount > 0
               then (Some (FailedToCollect errorCount ''Redis''),
                     finish_scrape env (RecordScrapeError bc), w')
               else (None, finish_scrape env bc, w'))"

definition SLBCollector_Collect :: "lib \<Rightarrow> collect_env \<Rightarrow> BaseCollector \<Rightarrow> World
    \<Rightarrow> error option \<times> BaseCollector \<times> World" where
  "SLBCollector_Collect l env bc w =
     (if \<not> Enabled (config bc) then (None, bc, w)
      else
        case collect_loop (\<lambda>e. CollectSLBMetric l e bc) ''SLB'' (metric_envs env)
                  (enumerate 0 (Metrics (config bc))) (0, start_scrape ''SLB'' bc w) of
             (errorCount, w') \<Rightarrow>
               if errorCount > 0
               then (Some (FailedToCollect errorCount ''SLB''),
                     finish_scrape env (RecordScrapeError bc), w')
               else (None, finish_scrape env bc, w'))"

text \<open>
  \<open>collectMetricsConcurrently\<close> starts one goroutine per metric name; at most ten hold
  the semaphore at a time. The goroutines are run here one after the other, each to its
  end, in the order \<open>sched\<close>, a rearrangement of the names paired with their positions
  that the run time chooses. The error channel has room for every metric, so no send on
  it blocks; its content is the list of errors, counted once all goroutines are done.
  The order \<open>sched\<close> is the field \<open>goroutine_order\<close> of the surroundings.
\<close>

fun run_goroutines :: "lib \<Rightarrow> BaseCollector \<Rightarrow> (nat \<Rightarrow> metric_env) \<Rightarrow> (nat \<times> string) list
    \<Rightarrow> error list \<times> World \<Rightarrow> error list \<times> World" where
  "run_goroutines l bc envs [] st = st"
| "run_goroutines l bc envs ((i, metric) # rest) (errorCh, w) =
     (case CollectMetric l (fetch (envs i)) bc metric w of
        (Some err, w') \<Rightarrow>
          run_goroutines l bc envs rest
            (errorCh @ [Errorf (''metric '' @ metric) err],
             w'\<lparr>logged := logged w' @
                  [MetricError ''Error collecting RDS metric'' metric err]\<rparr>)
      | (None, w') \<Rightarrow> run_goroutines l bc envs rest (errorCh, w'))"

definition collectMetricsConcurrently :: "lib \<Rightarrow> collect_env \<Rightarrow> BaseCollector \<Rightarrow> World
    \<Rightarrow> nat \<times> World" where
  "collectMetricsConcurrently l env bc w =
     (case run_goroutines l bc (metric_envs env) (goroutine_order env) ([], w) of
        (errorCh, w') \<Rightarrow> (length errorCh, w'))"

definition RDSCollector_Collect :: "lib \<Rightarrow> collect_env \<Rightarrow> BaseCollector \<Rightarrow> World
    \<Rightarrow> error option \<times> BaseCollector \<times> World" where
  "RDSCollector_Collect l env bc w =
     (if \<not> Enabled (config bc) then (None, bc, w)
      else
        case collectMetricsConcurrently l env bc (start_scrape ''RDS'' bc w) of
             (errorCount, w') \<Rightarrow>
               if errorCount > 0
               then (Some (FailedToCollect errorCount ''RDS''),
                     finish_scrape env (RecordScrapeError bc), w')
               else (None, finish_scrape env bc, w'))"


definition failed :: "(string \<times> error option \<times> Metric list) list \<Rightarrow> nat" where
  "failed os = length (filter (\<lambda>(metricName, err, sent). err \<noteq> None) os)"

definition sent_by :: "(string \<times> error option \<times> Metric list) list \<Rightarrow> Metric list" where
  "sent_by os = concat (map (\<lambda>(metricName, err, sent). sent) os)"

section \<open>Exporter\<close>

text \<open>The three implementations of \<open>ServiceCollector\<close>, each built on a
  \<open>BaseCollector\<close>.\<close>

datatype collector = SLB BaseCollector | Redis BaseCollector | RDS BaseCollector

fun base :: "collector \<Rightarrow> BaseCollector" where
  "base (SLB bc) = bc"
| "base (Redis bc) = bc"
| "base (RDS bc) = bc"

definition collector_Enabled :: "collector \<Rightarrow> bool" where
  "collector_Enabled col = Enabled (config (base col))"

definition collector_Name :: "collector \<Rightarrow> string" where
  "collector_Name col = serviceName (base col)"

fun collector_Collect :: "lib \<Rightarrow> collect_env \<Rightarrow> collector \<Rightarrow> World
    \<Rightarrow> error option \<times> collector \<times> World" where
  "collector_Collect l env (SLB bc) w =
     (case SLBCollector_Collect l env bc w of (err, bc', w') \<Rightarrow> (err, SLB bc', w'))"
| "collector_Collect l env (Redis bc) w =
     (case RedisCollector_Collect l env bc w of (err, bc', w') \<Rightarrow> (err, Redis bc', w'))"
| "collector_Collect l env (RDS bc) w =
     (case RDSCollector_Collect l env bc w of (err, bc', w') \<Rightarrow> (err, RDS bc', w'))"

text \<open>
  \<open>Exporter\<close>: its collectors, the values of its gauges and counters, the observations
  of its histogram, and the lines the exporter itself has logged.
\<close>

record Exporter =
  collectors :: "collector list"
  up :: nat
  totalScrapes :: nat
  exporter_scrapeErrors :: nat
  exporter_scrapeDuration :: "time list"
  lastScrapeTime :: int
  lastScrapeError :: nat
  exporter_logged :: "log_entry list"

text \<open>
  The surroundings of one scrape: the clock readings (at the start, for the duration, and
  the Unix time at the end), the answer of the remote API to the health probe, the order
  in which the goroutines of the collectors run (positions in the list of collectors),
  and the surroundings of the collector at each position.
\<close>

record scrape_env =
  s_start :: time
  s_since :: time
  s_unix :: int
  health_answer :: "error option"
  collector_order :: "nat list"
  collector_envs :: "nat \<Rightarrow> collect_env"

text \<open>
  The goroutines started by the loop over the collectors, run one after the other, each
  to its end, in the given order of positions. The error channel has room for every
  collector.
\<close>

fun run_collectors :: "lib \<Rightarrow> (nat \<Rightarrow> collect_env) \<Rightarrow> nat list
    \<Rightarrow> collector list \<times> error list \<times> World \<Rightarrow> collector list \<times> error list \<times> World" where
  "run_collectors l envs [] st = st"
| "run_collectors l envs (i # rest) (cols, errorCh, w) =
     (case collector_Collect l (envs i) (cols ! i) w of
        (Some err, col, w') \<Rightarrow>
          run_collectors l envs rest
            (cols[i := col],
             errorCh @ [Errorf (''collector '' @ collector_Name col @ '' failed'') err], w')
      | (None, col, w') \<Rightarrow> run_collectors l envs rest (cols[i := col], errorCh, w'))"

text \<open>\<open>Exporter.Collect\<close>. Only positions of enabled collectors are run; each is within
  the list, so the indexing above is in range.\<close>

definition Exporter_Collect :: "lib \<Rightarrow> scrape_env \<Rightarrow> Exporter \<Rightarrow> World \<Rightarrow> Exporter \<times> World" where
  "Exporter_Collect l env e w =
     (let e1 = e\<lparr>totalScrapes := totalScrapes e + 1\<rparr>;
          (herr, c) = Health (health_answer env) (client w);
          w1 = w\<lparr>client := c\<rparr>;
          e2 = (case herr of
                  Some err \<Rightarrow>
                    e1\<lparr>up := 0,
                       exporter_scrapeErrors := exporter_scrapeErrors e1 + 1,
                       lastScrapeError := 1,
                       exporter_logged := exporter_logged e1 @
                         [Error ''Alicloud client health check failed'' err]\<rparr>
                | None \<Rightarrow> e1\<lparr>up := 1, lastScrapeError := 0\<rparr>);
          started = filter (\<lambda>i. i < length (collectors e2)
                                 \<and> collector_Enabled (collectors e2 ! i))
                           (collector_order env)
      in case run_collectors l (collector_envs env) started (collectors e2, [], w1) of
           (cols, errorCh, w2) \<Rightarrow>
             (let errorCount = length errorCh;
                  e3 = e2\<lparr>collectors := cols,
                          exporter_logged := exporter_logged e2 @
                            map (Error ''Collection error'') errorCh\<rparr>;
                  e4 = (if errorCount > 0
                        then e3\<lparr>exporter_scrapeErrors := exporter_scrapeErrors e3 + errorCount,
                                lastScrapeError := 1\<rparr>
                        else e3\<lparr>lastScrapeError := 0\<rparr>);
                  e5 = e4\<lparr>exporter_scrapeDuration :=
                            exporter_scrapeDuration e4 @ [s_since env - s_start env],
                          lastScrapeTime := s_unix env\<rparr>
              in (e5, w2\<lparr>ch := ch w2 @ [Up, TotalScrapes, ScrapeErrors, ScrapeDuration,
                                        LastScrapeTime, LastScrapeError]\<rparr>)))"

section \<open>Invariant of the tag lookup\<close>

text \<open>
  What the loops of \<open>GetSLBInstanceTags\<close> maintain, for the set \<open>S\<close> of requested
  identifiers: the result map agrees with the tag cache on each of its keys and has keys
  in \<open>S\<close> only, the outstanding identifiers are in \<open>S\<close>, and every identifier of \<open>S\<close>
  is in the result map or outstanding.
\<close>

definition tags_inv :: "string set \<Rightarrow> (string \<rightharpoonup> tags) \<Rightarrow> string list \<Rightarrow> TagCache \<Rightarrow> bool" where
  "tags_inv S m u tc \<longleftrightarrow>
     (\<forall>k. m k \<noteq> None \<longrightarrow> m k = tc_cache tc k \<and> k \<in> S)
     \<and> set u \<subseteq> S
     \<and> (\<forall>i\<in>S. m i \<noteq> None \<or> i \<in> set u)"

section \<open>Concrete inputs\<close>

text \<open>A call of \<open>Wait\<close> with a live context during which nothing happens, and the rate
  limiter that \<open>NewRateLimiter 10 2\<close> returns.\<close>

definition live_env :: wait_env where
  "live_env = \<lparr>ctx_done = None, pick_done = False, events = []\<rparr>"

definition limiter_10_2 :: RateLimiter where
  "limiter_10_2 = \<lparr>tokens = 2, burst = 2, requests = 10, period = 100000000,
     cancelled = False, ticker_stopped = False, tick_pending = False, refill_exited = False\<rparr>"

text \<open>A client as \<open>NewClient\<close> sets it up (a 30-second metric cache, a 5-minute tag
  cache) around that rate limiter, and surroundings in which every context is live, the
  remote metric call answers with an empty array and the only region lists one load
  balancer.\<close>

definition client0 :: Client where
  "client0 = \<lparr>region = ''cn-hangzhou'', rateLimiter = limiter_10_2,
     cache = NewMetricCache (30 * second), tagCache = NewTagCache (5 * minute), calls = []\<rparr>"

definition fetch_env0 :: fetch_env where
  "fetch_env0 = \<lparr>now_get = 0, limiter = live_env,
     DescribeMetricLast = (\<lambda>ns m. Inr \<lparr>Datapoints = ''[]''\<rparr>), now_set = 1\<rparr>"

definition tags_env0 :: tags_env where
  "tags_env0 = \<lparr>region_order = [''cn-hangzhou''], region_wait = (\<lambda>rgn. live_env),
     DescribeLoadBalancers =
       (\<lambda>rgn. Inr [\<lparr>LoadBalancerId = ''lb-1'', Tags = [(''Team'', ''infra'')]\<rparr>])\<rparr>"

text \<open>A call of \<open>Wait\<close> whose context is already cancelled and whose \<open>select\<close> takes
  that case.\<close>

definition cancelled_env :: wait_env where
  "cancelled_env = \<lparr>ctx_done = Some Canceled, pick_done = True, events = []\<rparr>"

definition tags_env_cancelled :: tags_env where
  "tags_env_cancelled = tags_env0\<lparr>region_wait := (\<lambda>rgn. cancelled_env)\<rparr>"

definition client_tagged :: Client where
  "client_tagged =
     client0\<lparr>tagCache := TagCache_Set (tagCache client0) ''lb-1'' (Some [''Team'' \<mapsto> ''infra''])\<rparr>"

text \<open>The rate limiter of the default configuration, \<open>NewRateLimiter 10 20\<close>; a data
  point; library functions that decode every payload to that data point and accept every
  metric; and a cache collector with five metric names, for two of which the remote call
  fails.\<close>

definition limiter_10_20 :: RateLimiter where
  "limiter_10_20 = \<lparr>tokens = 20, burst = 20, requests = 10, period = 100000000,
     cancelled = False, ticker_stopped = False, tick_pending = False, refill_exited = False\<rparr>"

definition point0 :: MetricData where
  "point0 = \<lparr>Timestamp = 1700000000000, UserID = [], InstanceID = ''r-1'', Device = [],
     Port = [], Protocol = [], Vip = [], State = [], Diskname = [],
     Sum = 12, Maximum = 7, Average = 0, Minimum = 0\<rparr>"

definition lib0 :: lib where
  "lib0 = \<lparr>Unmarshal = (\<lambda>s. Inr [point0]), validate = (\<lambda>desc labelValues. None)\<rparr>"

definition metrics5 :: "string list" where
  "metrics5 = [''CpuUsage'', ''MemoryUsage'', ''UsedMemory'', ''UsedQPS'', ''HitRate'']"

definition redis5 :: BaseCollector where
  "redis5 = NewBaseCollector \<lparr>Enabled = True, Namespace = ''acs_kvstore'', Metrics = metrics5\<rparr>
     ''redis'' ''alicloud''"

definition fetch_env5 :: fetch_env where
  "fetch_env5 = fetch_env0\<lparr>DescribeMetricLast :=
     (\<lambda>ns m. if m = ''MemoryUsage'' \<or> m = ''UsedQPS'' then Inl (Remote ''Throttling'')
              else Inr \<lparr>Datapoints = ''[{}]''\<rparr>)\<rparr>"

definition collect_env5 :: collect_env where
  "collect_env5 = \<lparr>t_start = 0, t_since = 3, t_last = 3,
     metric_envs = (\<lambda>i. \<lparr>fetch = fetch_env5, tag_lookup = tags_env0\<rparr>),
     goroutine_order = rev (enumerate 0 metrics5)\<rparr>"

definition world0 :: World where
  "world0 = \<lparr>client = client0\<lparr>rateLimiter := limiter_10_20\<rparr>, ch = [], logged = []\<rparr>"

text \<open>An exporter with that collector alone, before its first scrape, and the
  surroundings of a scrape whose health probe succeeds.\<close>

definition exporter0 :: Exporter where
  "exporter0 = \<lparr>collectors = [Redis redis5], up = 0, totalScrapes = 0,
     exporter_scrapeErrors = 0, exporter_scrapeDuration = [], lastScrapeTime = 0,
     lastScrapeError = 0, exporter_logged = []\<rparr>"

definition scrape_env0 :: scrape_env where
  "scrape_env0 = \<lparr>s_start = 0, s_since = 5, s_unix = 1700000000, health_answer = None,
     collector_order = [0], collector_envs = (\<lambda>i. collect_env5)\<rparr>"

section \<open>Unfolding the concrete inputs\<close>

text \<open>The definitions that the evaluation of a concrete run unfolds.\<close>

lemmas concrete_defs = client0_def fetch_env0_def tags_env0_def cancelled_env_def
  tags_env_cancelled_def client_tagged_def live_env_def limiter_10_2_def NewMetricCache_def NewTagCache_def

lemmas client_defs = GetSLBInstanceTags_def GetMetricData_def TagCache_Get_def TagCache_Set_def
  MetricCache_Get_def MetricCache_Set_def IsExpired_def Wait_def Wait_select_def

lemmas collector_defs = RedisCollector_Collect_def RDSCollector_Collect_def
  SLBCollector_Collect_def collectMetricsConcurrently_def CollectMetric_def
  CollectSLBMetric_def NewConstMetric_def buildLabelValues_def start_scrape_def
  finish_scrape_def RecordScrapeError_def NewBaseCollector_def initMetricDescriptors_def
  BuildFQName_def sample_value_def failed_def sent_by_def

lemmas collector_inputs = limiter_10_20_def point0_def lib0_def metrics5_def redis5_def
  fetch_env5_def collect_env5_def world0_def

lemmas exporter_defs = Exporter_Collect_def Health_def collector_Enabled_def
  collector_Name_def exporter0_def scrape_env0_def

lemma new_10_2: "NewRateLimiter 10 2 = Inr limiter_10_2"
  by (simp add: NewRateLimiter_def second_def limiter_10_2_def)

lemma redis5_config:
  "config redis5 = \<lparr>Enabled = True, Namespace = ''acs_kvstore'', Metrics = metrics5\<rparr>"
  by (simp add: redis5_def NewBaseCollector_def initMetricDescriptors_def)

section \<open>Value precedence\<close>

lemma NewConstMetric_Inr:
  "NewConstMetric l desc v lvs = Inr m \<Longrightarrow> m = ConstMetric desc v lvs"
  by (simp add: NewConstMetric_def split: option.splits)

lemma emit_metrics_values:
  "emit_metrics l bc n desc ds w = (r, w') \<Longrightarrow>
   \<exists>k. k \<le> length ds
     \<and> ch w' = ch w @ map (\<lambda>d. ConstMetric desc (sample_value d) (buildLabelValues bc d))
                        (take k ds)
     \<and> (r = None \<longrightarrow> k = length ds)"
proof (induction ds arbitrary: w)
  case Nil
  then show ?case by simp
next
  case (Cons d ds)
  show ?case
  proof (cases "NewConstMetric l desc (sample_value d) (buildLabelValues bc d)")
    case (Inl e)
    with Cons.prems show ?thesis by (intro exI [of _ 0]) auto
  next
    case (Inr m)
    from NewConstMetric_Inr [OF Inr]
    have m: "m = ConstMetric desc (sample_value d) (buildLabelValues bc d)" .
    from Inr Cons.prems have "emit_metrics l bc n desc ds (w\<lparr>ch := ch w @ [m]\<rparr>) = (r, w')"
      by simp
    from Cons.IH [OF this] obtain k where k: "k \<le> length ds"
      "ch w' = (ch w @ [m])
         @ map (\<lambda>d. ConstMetric desc (sample_value d) (buildLabelValues bc d)) (take k ds)"
      "r = None \<longrightarrow> k = length ds" by auto
    then show ?thesis using m by (intro exI [of _ "Suc k"]) simp
  qed
qed

lemma emit_slb_metrics_values:
  "emit_slb_metrics l n desc keys tm ds w = (r, w') \<Longrightarrow>
   \<exists>k. k \<le> length ds
     \<and> ch w' = ch w @ map (\<lambda>d. ConstMetric desc (sample_value d)
                              (buildDynamicSLBLabelValues d (tags_of tm (InstanceID d)) keys))
                        (take k ds)
     \<and> (r = None \<longrightarrow> k = length ds)"
proof (induction ds arbitrary: w)
  case Nil
  then show ?case by simp
next
  case (Cons d ds)
  let ?lv = "buildDynamicSLBLabelValues d (tags_of tm (InstanceID d)) keys"
  show ?case
  proof (cases "NewConstMetric l desc (sample_value d) ?lv")
    case (Inl e)
    with Cons.prems show ?thesis by (intro exI [of _ 0]) auto
  next
    case (Inr m)
    from NewConstMetric_Inr [OF Inr] have m: "m = ConstMetric desc (sample_value d) ?lv" .
    from Inr Cons.prems
    have "emit_slb_metrics l n desc keys tm ds (w\<lparr>ch := ch w @ [m]\<rparr>) = (r, w')"
      by simp
    from Cons.IH [OF this] obtain k where k: "k \<le> length ds"
      "ch w' = (ch w @ [m])
         @ map (\<lambda>d. ConstMetric desc (sample_value d)
                  (buildDynamicSLBLabelValues d (tags_of tm (InstanceID d)) keys)) (take k ds)"
      "r = None \<longrightarrow> k = length ds" by auto
    then show ?thesis using m by (intro exI [of _ "Suc k"]) simp
  qed
qed

text \<open>
  Claim C1. For every metric data point the extracted sample value is the average; when the
  average is zero it is the maximum; when the maximum is zero as well it is the sum. A data
  point with average 0, maximum 7 and sum 12 yields 7, and one with average 0, maximum 0 and
  sum 12 yields 12. This value is the one that each sample sent by the sample loops of
  \<open>CollectMetric\<close> and \<open>CollectSLBMetric\<close> carries, for the data points up to the first
  one whose metric the library rejects.
\<close>

theorem sample_value_precedence:
  "sample_value data =
     (if Average data \<noteq> 0 then Average data
      else if Maximum data \<noteq> 0 then Maximum data
      else Sum data)
   \<and> sample_value (data\<lparr>Average := 0, Maximum := 7, Sum := 12\<rparr>) = 7
   \<and> sample_value (data\<lparr>Average := 0, Maximum := 0, Sum := 12\<rparr>) = 12
   \<and> (emit_metrics l bc n desc ds w = (r, w') \<longrightarrow>
        (\<exists>k. k \<le> length ds
           \<and> ch w' = ch w @ map (\<lambda>d. ConstMetric desc (sample_value d) (buildLabelValues bc d))
                              (take k ds)
           \<and> (r = None \<longrightarrow> k = length ds)))
   \<and> (emit_slb_metrics l n desc keys tm ds w = (r, w') \<longrightarrow>
        (\<exists>k. k \<le> length ds
           \<and> ch w' = ch w @ map (\<lambda>d. ConstMetric desc (sample_value d)
                                    (buildDynamicSLBLabelValues d (tags_of tm (InstanceID d)) keys))
                              (take k ds)
           \<and> (r = None \<longrightarrow> k = length ds)))"
  using emit_metrics_values [of l bc n desc ds w r w']
    emit_slb_metrics_values [of l n desc keys tm ds w r w']
  by (simp add: sample_value_def Let_def)

theorem sample_value_precedence_witness:
  "sample_value point0 = 7
   \<and> emit_metrics lib0 redis5 ''CpuUsage''
        \<lparr>fqName = ''alicloud_redis_CpuUsage'', variableLabels = [''instance_id'']\<rparr>
        [point0, point0\<lparr>Maximum := 0\<rparr>] world0
     = (None, world0\<lparr>ch :=
          [ConstMetric \<lparr>fqName = ''alicloud_redis_CpuUsage'', variableLabels = [''instance_id'']\<rparr>
             7 [''r-1''],
           ConstMetric \<lparr>fqName = ''alicloud_redis_CpuUsage'', variableLabels = [''instance_id'']\<rparr>
             12 [''r-1'']]\<rparr>)"
proof -
  let ?desc = "\<lparr>fqName = ''alicloud_redis_CpuUsage'', variableLabels = [''instance_id'']\<rparr>"
  let ?ds = "[point0, point0\<lparr>Maximum := 0\<rparr>]"
  let ?w = "world0\<lparr>ch :=
          [ConstMetric ?desc 7 [''r-1''], ConstMetric ?desc 12 [''r-1'']]\<rparr>"
  have run: "emit_metrics lib0 redis5 ''CpuUsage'' ?desc ?ds world0 = (None, ?w)"
    by (simp add: collector_defs collector_inputs)
  from sample_value_precedence [of point0 lib0 redis5 "''CpuUsage''" ?desc ?ds world0 None ?w]
  have "sample_value point0 = (if Average point0 \<noteq> 0 then Average point0
      else if Maximum point0 \<noteq> 0 then Maximum point0 else Sum point0)" by blast
  then have "sample_value point0 = 7" by (simp add: point0_def)
  with run show ?thesis by simp
qed

section \<open>Cache lookups\<close>

lemma MetricCache_Get_absent:
  "mc_cache mc key = None \<Longrightarrow> MetricCache_Get now mc key = (None, False)"
  by (simp add: MetricCache_Get_def)

lemma MetricCache_Get_expired:
  "mc_cache mc key = Some entry \<Longrightarrow> now - EntryTimestamp entry > TTL entry \<Longrightarrow>
   MetricCache_Get now mc key = (None, False)"
  by (simp add: MetricCache_Get_def IsExpired_def)

lemma MetricCache_Get_fresh:
  "mc_cache mc key = Some entry \<Longrightarrow> now - EntryTimestamp entry \<le> TTL entry \<Longrightarrow>
   MetricCache_Get now mc key = (Some (Data entry), True)"
  by (simp add: MetricCache_Get_def IsExpired_def)

lemma MetricCache_Get_cases:
  "MetricCache_Get now mc key = (None, False)
   \<or> (\<exists>d. MetricCache_Get now mc key = (Some d, True))"
  by (simp add: MetricCache_Get_def split: option.splits)

text \<open>The sweep removes only entries that \<open>Get\<close> no longer returns.\<close>

lemma MetricCache_Get_Clear:
  "MetricCache_Get now (MetricCache_Clear now mc) key = MetricCache_Get now mc key"
  by (simp add: MetricCache_Get_def MetricCache_Clear_def split: option.splits)

lemma TagCache_Get_Set: "TagCache_Get (TagCache_Set tc key tgs) key = (tgs, True)"
  by (simp add: TagCache_Get_def TagCache_Set_def)

text \<open>
  Claim C2 holds for the metric cache and fails for the tag cache. \<open>TagCache.Get\<close> reads
  no clock and its entries carry no creation time: the TTL handed to \<open>NewTagCache\<close> is
  stored and never read. An entry stored in the 5-minute tag cache is found whenever it is
  looked up, while the entry of a 30-second metric cache stored at time 0 is still in the
  map after 31 seconds but is no longer found.
\<close>

theorem TagCache_Get_ignores_ttl:
  "TagCache_Get (TagCache_Set (NewTagCache (5 * minute)) ''lb-1'' (Some [''Team'' \<mapsto> ''infra'']))
      ''lb-1'' = (Some [''Team'' \<mapsto> ''infra''], True)
   \<and> MetricCache_Get (31 * second)
        (MetricCache_Set 0 (NewMetricCache (30 * second)) ''ns:m'' \<lparr>Datapoints = ''[]''\<rparr>) ''ns:m''
      = (None, False)
   \<and> mc_cache (MetricCache_Set 0 (NewMetricCache (30 * second)) ''ns:m'' \<lparr>Datapoints = ''[]''\<rparr>)
        ''ns:m'' \<noteq> None"
  by (simp add: TagCache_Get_def TagCache_Set_def NewTagCache_def MetricCache_Get_def
      MetricCache_Set_def NewMetricCache_def IsExpired_def second_def)

section \<open>Token bucket\<close>

text \<open>The configurations for which \<open>NewRateLimiter\<close> returns a rate limiter, and the
  bound that events keep on the bucket.\<close>

lemma NewRateLimiter_succeeds_iff:
  "(\<exists>rl. NewRateLimiter rps B = Inr rl) \<longleftrightarrow> 0 \<le> B \<and> 1 \<le> rps \<and> rps \<le> 1000000000"
proof (cases "0 < rps")
  case True
  then have "(0 < (1000000000::int) div rps) = (rps \<le> 1000000000)"
    by (rule pos_imp_zdiv_pos_iff)
  with True show ?thesis
    by (auto simp: NewRateLimiter_def second_def Let_def not_le)
next
  case False
  have "rps < 0 \<Longrightarrow> 0 \<le> (1000000000::int) div (- rps)"
    by (simp add: pos_imp_zdiv_nonneg_iff)
  with False show ?thesis
    by (auto simp: NewRateLimiter_def second_def Let_def)
qed

lemma idle_event_bounded:
  "int (tokens rl) \<le> burst rl \<Longrightarrow> int (tokens (idle_event ev rl)) \<le> burst rl
     \<and> burst (idle_event ev rl) = burst rl"
  by (cases ev) (auto simp: ticker_fire_def refillTokens_step_def Close_def)

lemma Wait_live_token:
  "ctx_done env = None \<Longrightarrow> 0 < tokens rl \<Longrightarrow>
   Wait env rl = (None, rl\<lparr>tokens := tokens rl - 1\<rparr>)
   \<and> Wait_select (pick_done env) (ctx_done env) rl \<noteq> None"
  by (simp add: Wait_def Wait_select_def)

lemma Wait_seq_live:
  "length envs \<le> tokens rl \<Longrightarrow> list_all (\<lambda>e. ctx_done e = None) envs \<Longrightarrow>
   Wait_seq envs rl =
     (replicate (length envs) (False, None), rl\<lparr>tokens := tokens rl - length envs\<rparr>)"
proof (induction envs arbitrary: rl)
  case Nil
  then show ?case by simp
next
  case (Cons env envs)
  from Cons.prems have live: "ctx_done env = None" and pos: "0 < tokens rl" by auto
  have step: "Wait env rl = (None, rl\<lparr>tokens := tokens rl - 1\<rparr>)"
    and ready: "Wait_select (pick_done env) (ctx_done env) rl \<noteq> None"
    using Wait_live_token [OF live pos] by simp_all
  have rest: "Wait_seq envs (rl\<lparr>tokens := tokens rl - 1\<rparr>) =
      (replicate (length envs) (False, None),
       rl\<lparr>tokens := tokens rl - 1\<rparr>\<lparr>tokens := tokens (rl\<lparr>tokens := tokens rl - 1\<rparr>) - length envs\<rparr>)"
    using Cons.prems by (intro Cons.IH) auto
  show ?case using step ready rest by simp
qed

lemma Wait_blocked_nil_needs_refill:
  "fst (Wait_blocked evs rl) = None \<Longrightarrow> \<exists>p. RefillStep p \<in> set evs"
proof (induction evs rl rule: Wait_blocked.induct)
  case (3 p evs rl)
  then show ?case by auto
qed auto

lemma refill_handoff_needs_tick:
  "refillTokens_step p w rl = (True, rl') \<Longrightarrow> tick_pending rl"
  by (auto simp: refillTokens_step_def split: if_splits)

lemma refill_keeps_no_tick:
  "\<not> tick_pending rl \<Longrightarrow> \<not> tick_pending (snd (refillTokens_step p w rl))"
  by (auto simp: refillTokens_step_def split: if_splits)

lemma Wait_blocked_nil_needs_tick:
  "fst (Wait_blocked evs rl) = None \<Longrightarrow> \<not> tick_pending rl \<Longrightarrow> TickerFire \<in> set evs"
proof (induction evs rl rule: Wait_blocked.induct)
  case (3 p evs rl)
  obtain h rl' where st: "refillTokens_step p True rl = (h, rl')"
    by (cases "refillTokens_step p True rl")
  show ?case
  proof (cases h)
    case True
    with st have "tick_pending rl" using refill_handoff_needs_tick [of p True rl rl'] by simp
    with "3.prems"(2) show ?thesis by simp
  next
    case False
    have "\<not> tick_pending rl'"
      using refill_keeps_no_tick [OF "3.prems"(2), of p True] st by simp
    moreover have "fst (Wait_blocked evs rl') = None" using "3.prems"(1) st False by simp
    ultimately have "TickerFire \<in> set evs" using "3.IH" st False by simp
    then show ?thesis by simp
  qed
qed (auto simp: Close_def)

text \<open>
  Claim C3. A rate limiter freshly made with burst \<open>B > 0\<close> admits exactly \<open>B\<close>
  consecutive calls of \<open>Wait\<close> at once: each of \<open>B\<close> calls with a live context returns
  nil without blocking, whatever else its surroundings are. The next call finds no case
  of its \<open>select\<close> ready; it returns nil only after the ticker has fired and the refill
  goroutine has run, it times out when nothing happens, and one tick and one refill step
  are enough to admit it.
\<close>

theorem burst_admits_exactly_B:
  assumes new: "NewRateLimiter rps B = Inr rl" and pos: "0 < B"
    and len: "length envs = nat B" and live: "list_all (\<lambda>e. ctx_done e = None) envs"
    and live': "ctx_done env = None"
  shows "Wait_seq envs rl = (replicate (nat B) (False, None), rl\<lparr>tokens := 0\<rparr>)
       \<and> Wait_select (pick_done env) (ctx_done env) (rl\<lparr>tokens := 0\<rparr>) = None
       \<and> (fst (Wait env (rl\<lparr>tokens := 0\<rparr>)) = None \<longrightarrow>
            TickerFire \<in> set (events env) \<and> (\<exists>p. RefillStep p \<in> set (events env)))
       \<and> Wait (env\<lparr>events := []\<rparr>) (rl\<lparr>tokens := 0\<rparr>)
           = (Some DeadlineExceeded, rl\<lparr>tokens := 0\<rparr>)
       \<and> Wait (env\<lparr>events := [TickerFire, RefillStep p]\<rparr>) (rl\<lparr>tokens := 0\<rparr>)
           = (None, rl\<lparr>tokens := 0\<rparr>)"
proof -
  from new have tk: "tokens rl = nat B" and np: "\<not> tick_pending rl"
    and fresh: "\<not> cancelled rl" "\<not> ticker_stopped rl" "\<not> refill_exited rl"
    by (auto simp: NewRateLimiter_def Let_def split: if_splits)
  have a: "Wait_seq envs rl = (replicate (nat B) (False, None), rl\<lparr>tokens := 0\<rparr>)"
    using Wait_seq_live [of envs rl] len live tk by simp
  have b: "Wait_select (pick_done env) (ctx_done env) (rl\<lparr>tokens := 0\<rparr>) = None"
    using live' by (simp add: Wait_select_def)
  have w: "Wait env (rl\<lparr>tokens := 0\<rparr>) = Wait_blocked (events env) (rl\<lparr>tokens := 0\<rparr>)"
    using b by (simp add: Wait_def)
  have c: "fst (Wait env (rl\<lparr>tokens := 0\<rparr>)) = None \<longrightarrow>
            TickerFire \<in> set (events env) \<and> (\<exists>p. RefillStep p \<in> set (events env))"
    using Wait_blocked_nil_needs_refill [of "events env" "rl\<lparr>tokens := 0\<rparr>"]
      Wait_blocked_nil_needs_tick [of "events env" "rl\<lparr>tokens := 0\<rparr>"] np w by simp
  have d: "Wait (env\<lparr>events := []\<rparr>) (rl\<lparr>tokens := 0\<rparr>)
      = (Some DeadlineExceeded, rl\<lparr>tokens := 0\<rparr>)"
    using live' by (simp add: Wait_def Wait_select_def)
  have e: "Wait (env\<lparr>events := [TickerFire, RefillStep p]\<rparr>) (rl\<lparr>tokens := 0\<rparr>)
      = (None, rl\<lparr>tokens := 0\<rparr>)"
    using live' np fresh
    by (simp add: Wait_def Wait_select_def ticker_fire_def refillTokens_step_def)
  from a b c d e show ?thesis by blast
qed

theorem burst_admits_exactly_B_witness:
  "NewRateLimiter 10 2 = Inr limiter_10_2
   \<and> Wait_seq [live_env, live_env] limiter_10_2
       = ([(False, None), (False, None)], limiter_10_2\<lparr>tokens := 0\<rparr>)
   \<and> Wait_select False None (limiter_10_2\<lparr>tokens := 0\<rparr>) = None
   \<and> Wait live_env (limiter_10_2\<lparr>tokens := 0\<rparr>)
       = (Some DeadlineExceeded, limiter_10_2\<lparr>tokens := 0\<rparr>)"
  using burst_admits_exactly_B [OF new_10_2, of "[live_env, live_env]" live_env]
  by (simp add: live_env_def numeral_2_eq_2 new_10_2)

section \<open>Closing the rate limiter\<close>






section \<open>Fetching a metric\<close>

text \<open>
  Claim C5. \<open>GetMetricData\<close> reads the metric cache first. On a hit it returns the cached
  response and leaves the client as it is: no token is taken and no remote call is made.
  On a miss it waits for a token; when the wait fails, the wrapped error is returned
  without a remote call; when the remote call fails, the wrapped error is returned; in
  both cases the cache is unchanged. When the remote call succeeds the response is
  returned and stored under the key with the time of storing.
\<close>

theorem GetMetricData_cache_first:
  "(MetricCache_Get (now_get env) (cache c) (namespace @ '':'' @ metricName) = (Some d, True)
      \<longrightarrow> GetMetricData env c namespace metricName = (Inr d, c))
   \<and> (snd (MetricCache_Get (now_get env) (cache c) (namespace @ '':'' @ metricName)) = False
      \<longrightarrow>
        (Wait (limiter env) (rateLimiter c) = (Some werr, rl) \<longrightarrow>
           fst (GetMetricData env c namespace metricName)
             = Inl (Errorf ''rate limiter wait failed'' werr)
           \<and> cache (snd (GetMetricData env c namespace metricName)) = cache c
           \<and> rateLimiter (snd (GetMetricData env c namespace metricName)) = rl
           \<and> calls (snd (GetMetricData env c namespace metricName))
               = calls c @ [RateLimiterWait])
      \<and> (Wait (limiter env) (rateLimiter c) = (None, rl)
           \<and> DescribeMetricLast env namespace metricName = Inl rerr \<longrightarrow>
           fst (GetMetricData env c namespace metricName)
             = Inl (Errorf (''failed to get metric data for '' @ namespace @ ''/''
                              @ metricName) rerr)
           \<and> cache (snd (GetMetricData env c namespace metricName)) = cache c
           \<and> rateLimiter (snd (GetMetricData env c namespace metricName)) = rl
           \<and> calls (snd (GetMetricData env c namespace metricName))
               = calls c @ [RateLimiterWait, DescribeMetricLastCall namespace metricName])
      \<and> (Wait (limiter env) (rateLimiter c) = (None, rl)
           \<and> DescribeMetricLast env namespace metricName = Inr response \<longrightarrow>
           fst (GetMetricData env c namespace metricName) = Inr response
           \<and> cache (snd (GetMetricData env c namespace metricName))
               = MetricCache_Set (now_set env) (cache c) (namespace @ '':'' @ metricName)
                   response
           \<and> mc_cache (cache (snd (GetMetricData env c namespace metricName)))
                 (namespace @ '':'' @ metricName)
               = Some \<lparr>Data = response, EntryTimestamp = now_set env,
                        TTL = mc_ttl (cache c)\<rparr>
           \<and> rateLimiter (snd (GetMetricData env c namespace metricName)) = rl
           \<and> calls (snd (GetMetricData env c namespace metricName))
               = calls c @ [RateLimiterWait, DescribeMetricLastCall namespace metricName]))"
proof -
  let ?key = "namespace @ '':'' @ metricName"
  have miss: "snd (MetricCache_Get (now_get env) (cache c) ?key) = False \<Longrightarrow>
      MetricCache_Get (now_get env) (cache c) ?key = (None, False)"
    using MetricCache_Get_cases [of "now_get env" "cache c" ?key] by auto
  show ?thesis
    using miss by (auto simp: GetMetricData_def MetricCache_Set_def Let_def)
qed

theorem GetMetricData_cache_first_witness:
  "GetMetricData fetch_env0 client0 ''acs_kvstore'' ''CpuUsage''
     = (Inr \<lparr>Datapoints = ''[]''\<rparr>,
        client0\<lparr>rateLimiter := limiter_10_2\<lparr>tokens := 1\<rparr>,
                calls := [RateLimiterWait, DescribeMetricLastCall ''acs_kvstore'' ''CpuUsage''],
                cache := MetricCache_Set 1 (cache client0) ''acs_kvstore:CpuUsage''
                           \<lparr>Datapoints = ''[]''\<rparr>\<rparr>)
   \<and> GetMetricData (fetch_env0\<lparr>now_get := 2\<rparr>)
        (snd (GetMetricData fetch_env0 client0 ''acs_kvstore'' ''CpuUsage''))
        ''acs_kvstore'' ''CpuUsage''
     = (Inr \<lparr>Datapoints = ''[]''\<rparr>,
        snd (GetMetricData fetch_env0 client0 ''acs_kvstore'' ''CpuUsage''))
   \<and> fst (GetMetricData (fetch_env0\<lparr>limiter := cancelled_env\<rparr>) client0
            ''acs_kvstore'' ''CpuUsage'')
     = Inl (Errorf ''rate limiter wait failed'' Canceled)
   \<and> fst (GetMetricData fetch_env5 client0 ''acs_kvstore'' ''MemoryUsage'')
     = Inl (Errorf ''failed to get metric data for acs_kvstore/MemoryUsage''
              (Remote ''Throttling''))
   \<and> cache (snd (GetMetricData fetch_env5 client0 ''acs_kvstore'' ''MemoryUsage''))
     = cache client0"
  using GetMetricData_cache_first [of fetch_env0 client0 "''acs_kvstore''" "''CpuUsage''"
      "\<lparr>Datapoints = ''[]''\<rparr>" Canceled "limiter_10_2\<lparr>tokens := 1\<rparr>" Canceled
      "\<lparr>Datapoints = ''[]''\<rparr>"]
    GetMetricData_cache_first [of "fetch_env0\<lparr>now_get := 2\<rparr>"
      "snd (GetMetricData fetch_env0 client0 ''acs_kvstore'' ''CpuUsage'')"
      "''acs_kvstore''" "''CpuUsage''"
      "\<lparr>Datapoints = ''[]''\<rparr>" Canceled "limiter_10_2\<lparr>tokens := 1\<rparr>" Canceled
      "\<lparr>Datapoints = ''[]''\<rparr>"]
    GetMetricData_cache_first [of "fetch_env0\<lparr>limiter := cancelled_env\<rparr>" client0
      "''acs_kvstore''" "''CpuUsage''"
      "\<lparr>Datapoints = ''[]''\<rparr>" Canceled "limiter_10_2" Canceled
      "\<lparr>Datapoints = ''[]''\<rparr>"]
    GetMetricData_cache_first [of fetch_env5 client0 "''acs_kvstore''" "''MemoryUsage''"
      "\<lparr>Datapoints = ''[]''\<rparr>" Canceled "limiter_10_2\<lparr>tokens := 1\<rparr>"
      "Remote ''Throttling''" "\<lparr>Datapoints = ''[]''\<rparr>"]
  by (simp add: client_defs concrete_defs fetch_env5_def second_def)

section \<open>Fetching tags\<close>

lemma check_cache_inv:
  "check_cache tc ids (m, u) = (m', u') \<Longrightarrow> tags_inv S m u tc \<Longrightarrow>
   tags_inv (S \<union> set ids) m' u' tc \<and> ((\<forall>i\<in>set ids. tc_cache tc i \<noteq> None) \<longrightarrow> u' = u)"
proof (induction ids arbitrary: m u S)
  case Nil
  then show ?case by simp
next
  case (Cons i ids)
  show ?case
  proof (cases "tc_cache tc i")
    case None
    with Cons.prems have step: "check_cache tc ids (m, u @ [i]) = (m', u')"
      by (simp add: TagCache_Get_def)
    have "tags_inv (S \<union> {i}) m (u @ [i]) tc"
      using Cons.prems(2) by (auto simp: tags_inv_def)
    from Cons.IH [OF step this] None show ?thesis by simp
  next
    case (Some tgs)
    with Cons.prems have step: "check_cache tc ids (m(i \<mapsto> tgs), u) = (m', u')"
      by (simp add: TagCache_Get_def)
    have "tags_inv (S \<union> {i}) (m(i \<mapsto> tgs)) u tc"
      using Cons.prems(2) Some by (auto simp: tags_inv_def)
    from Cons.IH [OF step this] Some show ?thesis by simp
  qed
qed

lemma process_lbs_inv:
  "process_lbs lbs (m, u, tc) = (m', u', tc') \<Longrightarrow> tags_inv S m u tc \<Longrightarrow> tags_inv S m' u' tc'"
proof (induction lbs arbitrary: m u tc)
  case Nil
  then show ?case by simp
next
  case (Cons lb lbs)
  show ?case
  proof (cases "LoadBalancerId lb \<in> set u")
    case False
    with Cons.prems have "process_lbs lbs (m, u, tc) = (m', u', tc')" by simp
    from Cons.IH [OF this Cons.prems(2)] show ?thesis .
  next
    case True
    define tgs where "tgs = fold (\<lambda>(k, v) m. m(k \<mapsto> v)) (Tags lb) Map.empty"
    from True Cons.prems
    have step: "process_lbs lbs (m(LoadBalancerId lb \<mapsto> Some tgs),
        removeAll (LoadBalancerId lb) u,
        TagCache_Set tc (LoadBalancerId lb) (Some tgs)) = (m', u', tc')"
      by (simp add: tgs_def Let_def)
    have "tags_inv S (m(LoadBalancerId lb \<mapsto> Some tgs)) (removeAll (LoadBalancerId lb) u)
        (TagCache_Set tc (LoadBalancerId lb) (Some tgs))"
      using Cons.prems(2) True by (auto simp: tags_inv_def TagCache_Set_def)
    from Cons.IH [OF step this] show ?thesis .
  qed
qed

lemma regions_loop_inv:
  "regions_loop env rs (m, u, c) = (err, m', u', c') \<Longrightarrow> tags_inv S m u (tagCache c) \<Longrightarrow>
   tags_inv S m' u' (tagCache c')"
proof (induction rs arbitrary: m u c)
  case Nil
  then show ?case by simp
next
  case (Cons rgn rest)
  show ?case
  proof (cases "u = []")
    case True
    with Cons.prems show ?thesis by simp
  next
    case ne: False
    obtain werr rl where w: "Wait (region_wait env rgn) (rateLimiter c) = (werr, rl)"
      by (cases "Wait (region_wait env rgn) (rateLimiter c)")
    show ?thesis
    proof (cases werr)
      case (Some e)
      with Cons.prems ne w show ?thesis by auto
    next
      case None
      define c1 where "c1 = c\<lparr>rateLimiter := rl,
          calls := calls c @ [RateLimiterWait, DescribeLoadBalancersCall rgn]\<rparr>"
      have tc1: "tagCache c1 = tagCache c" by (simp add: c1_def)
      show ?thesis
      proof (cases "DescribeLoadBalancers env rgn")
        case (Inl rerr)
        with Cons.prems ne w None
        have "regions_loop env rest (m, u, c1\<lparr>calls := calls c1 @ [Printf rgn rerr]\<rparr>)
            = (err, m', u', c')"
          by (simp add: c1_def Let_def)
        from Cons.IH [OF this] Cons.prems(2) tc1 show ?thesis by simp
      next
        case (Inr lbs)
        obtain m2 u2 tc2 where p: "process_lbs lbs (m, u, tagCache c1) = (m2, u2, tc2)"
          by (cases "process_lbs lbs (m, u, tagCache c1)")
        with Cons.prems ne w None Inr
        have step: "regions_loop env rest (m2, u2, c1\<lparr>tagCache := tc2\<rparr>) = (err, m', u', c')"
          by (simp add: c1_def Let_def)
        have "tags_inv S m2 u2 tc2"
          using process_lbs_inv [OF p] Cons.prems(2) tc1 by simp
        with Cons.IH [OF step] show ?thesis by simp
      qed
    qed
  qed
qed

lemma cache_empty_inv:
  "cache_empty u (m, tc) = (m', tc') \<Longrightarrow> tags_inv S m u tc \<Longrightarrow> tags_inv S m' [] tc'"
proof (induction u arbitrary: m tc)
  case Nil
  then show ?case by simp
next
  case (Cons i u)
  from Cons.prems
  have step: "cache_empty u (m(i \<mapsto> Some Map.empty), TagCache_Set tc i (Some Map.empty))
      = (m', tc')"
    by simp
  have "tags_inv S (m(i \<mapsto> Some Map.empty)) u (TagCache_Set tc i (Some Map.empty))"
    using Cons.prems(2) by (auto simp: tags_inv_def TagCache_Set_def)
  from Cons.IH [OF step this] show ?case .
qed

lemma tags_inv_done:
  "tags_inv S m [] tc \<Longrightarrow> m = (\<lambda>k. if k \<in> S then tc_cache tc k else None)"
  by (auto simp: tags_inv_def fun_eq_iff)

lemma tags_inv_cached: "tags_inv S m [] tc \<Longrightarrow> i \<in> S \<Longrightarrow> tc_cache tc i \<noteq> None"
  by (auto simp: tags_inv_def)

lemma GetSLBInstanceTags_all_cached:
  assumes a: "\<forall>i\<in>set ids. tc_cache (tagCache c) i \<noteq> None"
  shows "GetSLBInstanceTags env c ids
          = ((Some (\<lambda>k. if k \<in> set ids then tc_cache (tagCache c) k else None), None), c)"
proof (cases ids)
  case Nil
  then show ?thesis by (simp add: GetSLBInstanceTags_def)
next
  case (Cons i rest)
  obtain m u where cc: "check_cache (tagCache c) ids (Map.empty, []) = (m, u)"
    by (cases "check_cache (tagCache c) ids (Map.empty, [])")
  have "tags_inv {} Map.empty [] (tagCache c)" by (simp add: tags_inv_def)
  from check_cache_inv [OF cc this] a have "u = []" and "tags_inv (set ids) m u (tagCache c)"
    by auto
  then have "tags_inv (set ids) m [] (tagCache c)" and "u = []" by simp_all
  with tags_inv_done [of "set ids" m "tagCache c"] cc Cons show ?thesis
    by (simp add: GetSLBInstanceTags_def)
qed

lemma GetSLBInstanceTags_ok_inv:
  assumes ok: "GetSLBInstanceTags env c ids = ((m1, None), c1)"
  shows "\<exists>m. m1 = Some m \<and> tags_inv (set ids) m [] (tagCache c1)"
proof (cases "ids = []")
  case True
  with ok show ?thesis by (auto simp: GetSLBInstanceTags_def tags_inv_def)
next
  case ne: False
  obtain m u where cc: "check_cache (tagCache c) ids (Map.empty, []) = (m, u)"
    by (cases "check_cache (tagCache c) ids (Map.empty, [])")
  have "tags_inv {} Map.empty [] (tagCache c)" by (simp add: tags_inv_def)
  from check_cache_inv [OF cc this] have inv0: "tags_inv (set ids) m u (tagCache c)" by simp
  show ?thesis
  proof (cases "u = []")
    case True
    with ok ne cc inv0 show ?thesis by (auto simp: GetSLBInstanceTags_def)
  next
    case une: False
    obtain err m2 u2 c2 where rl: "regions_loop env (region_order env) (m, remdups u, c)
        = (err, m2, u2, c2)"
      by (cases "regions_loop env (region_order env) (m, remdups u, c)") auto
    from ok ne cc une rl have noerr: "err = None"
      by (cases err) (simp_all add: GetSLBInstanceTags_def)
    obtain m3 tc3 where ce: "cache_empty u2 (m2, tagCache c2) = (m3, tc3)"
      by (cases "cache_empty u2 (m2, tagCache c2)")
    from ok ne cc une rl noerr ce have res: "c1 = c2\<lparr>tagCache := tc3\<rparr>" "m1 = Some m3"
      by (simp_all add: GetSLBInstanceTags_def)
    have "tags_inv (set ids) m (remdups u) (tagCache c)"
      using inv0 by (simp add: tags_inv_def)
    from regions_loop_inv [OF rl this] have "tags_inv (set ids) m2 u2 (tagCache c2)" .
    from cache_empty_inv [OF ce this] have "tags_inv (set ids) m3 [] tc3" .
    with res show ?thesis by simp
  qed
qed

text \<open>
  Claim C10. \<open>GetSLBInstanceTags\<close> with no identifiers returns an empty map that is not
  nil and a nil error, and leaves the client as it is: no token taken, no remote call, tag
  cache unchanged. When every requested identifier is in the tag cache, the call returns
  their cached tags and a nil error and again leaves the client as it is.
\<close>

theorem GetSLBInstanceTags_from_cache:
  "GetSLBInstanceTags env c [] = ((Some Map.empty, None), c)
   \<and> ((\<forall>i\<in>set ids. tc_cache (tagCache c) i \<noteq> None) \<longrightarrow>
        GetSLBInstanceTags env c ids
          = ((Some (\<lambda>k. if k \<in> set ids then tc_cache (tagCache c) k else None), None), c))"
  using GetSLBInstanceTags_all_cached [of ids c env]
  by (simp add: GetSLBInstanceTags_def)

theorem GetSLBInstanceTags_from_cache_witness:
  "GetSLBInstanceTags tags_env0 client0 [] = ((Some Map.empty, None), client0)
   \<and> snd (GetSLBInstanceTags tags_env0 client_tagged [''lb-1'']) = client_tagged
   \<and> snd (fst (GetSLBInstanceTags tags_env0 client_tagged [''lb-1''])) = None
   \<and> tags_of (fst (fst (GetSLBInstanceTags tags_env0 client_tagged [''lb-1'']))) ''lb-1''
       = Some [''Team'' \<mapsto> ''infra'']"
proof -
  have cached: "\<forall>i\<in>set [''lb-1'']. tc_cache (tagCache client_tagged) i \<noteq> None"
    by (simp add: client_tagged_def TagCache_Set_def)
  have val: "tc_cache (tagCache client_tagged) ''lb-1'' = Some (Some [''Team'' \<mapsto> ''infra''])"
    by (simp add: client_tagged_def TagCache_Set_def)
  from GetSLBInstanceTags_from_cache [of tags_env0 client_tagged "[''lb-1'']"] cached
  have "GetSLBInstanceTags tags_env0 client_tagged [''lb-1'']
      = ((Some (\<lambda>k. if k \<in> set [''lb-1''] then tc_cache (tagCache client_tagged) k else None),
          None), client_tagged)" by blast
  moreover have "GetSLBInstanceTags tags_env0 client0 [] = ((Some Map.empty, None), client0)"
    using GetSLBInstanceTags_from_cache [of tags_env0 client0 "[]"] by blast
  ultimately show ?thesis using val by (simp add: tags_of_def)
qed

text \<open>
  Claim C6, as stated, fails when the first call ends in the early return of a failed
  \<open>Wait\<close>: nothing is cached for the outstanding identifiers. Here the first call is
  made with a cancelled context and returns the rate limiter's error; the tag cache has
  no entry for the identifier, and the second call, made with a live context, lists the
  region.
\<close>

theorem GetSLBInstanceTags_error_not_cached:
  "snd (fst (GetSLBInstanceTags tags_env_cancelled client0 [''lb-1'']))
     = Some (Errorf ''rate limiter error'' Canceled)
   \<and> tc_cache (tagCache (snd (GetSLBInstanceTags tags_env_cancelled client0 [''lb-1''])))
        ''lb-1'' = None
   \<and> calls (snd (GetSLBInstanceTags tags_env_cancelled client0 [''lb-1''])) = [RateLimiterWait]
   \<and> calls (snd (GetSLBInstanceTags tags_env0
         (snd (GetSLBInstanceTags tags_env_cancelled client0 [''lb-1''])) [''lb-1'']))
      = [RateLimiterWait, RateLimiterWait, DescribeLoadBalancersCall ''cn-hangzhou'']"
  by (simp add: client_defs concrete_defs Let_def)

text \<open>
  Claim C6, amended. When a call of \<open>GetSLBInstanceTags\<close> returns a nil error, every
  requested identifier is in the tag cache afterwards (those found in no region with an
  empty tag set, see the witness), and a second call with the same identifiers, in any
  surroundings, returns the same map and a nil error and leaves the client as it is: it
  takes no token and lists no region.
\<close>

theorem GetSLBInstanceTags_second_call_cached:
  assumes ok: "GetSLBInstanceTags env1 c ids = ((m1, None), c1)"
  shows "(\<forall>i\<in>set ids. tc_cache (tagCache c1) i \<noteq> None)
       \<and> GetSLBInstanceTags env2 c1 ids = ((m1, None), c1)"
proof -
  from GetSLBInstanceTags_ok_inv [OF ok] obtain m where
    m: "m1 = Some m" and inv: "tags_inv (set ids) m [] (tagCache c1)" by blast
  have cached: "\<forall>i\<in>set ids. tc_cache (tagCache c1) i \<noteq> None"
    using tags_inv_cached [OF inv] by blast
  from GetSLBInstanceTags_all_cached [OF cached, of env2] tags_inv_done [OF inv] m
  show ?thesis using cached by simp
qed



theorem GetSLBInstanceTags_second_call_cached_witness:
  "snd (fst (GetSLBInstanceTags tags_env0 client0 [''lb-1'', ''lb-2''])) = None
   \<and> GetSLBInstanceTags tags_env0
        (snd (GetSLBInstanceTags tags_env0 client0 [''lb-1'', ''lb-2''])) [''lb-1'', ''lb-2'']
      = GetSLBInstanceTags tags_env0 client0 [''lb-1'', ''lb-2'']
   \<and> tc_cache (tagCache (snd (GetSLBInstanceTags tags_env0 client0 [''lb-1'', ''lb-2''])))
        ''lb-2'' = Some (Some Map.empty)"
proof -
  define r where "r = GetSLBInstanceTags tags_env0 client0 [''lb-1'', ''lb-2'']"
  have noerr: "snd (fst r) = None"
    unfolding r_def
    by (simp add: client_defs concrete_defs ticker_fire_def refillTokens_step_def Let_def)
  have lb2: "tc_cache (tagCache (snd r)) ''lb-2'' = Some (Some Map.empty)"
    unfolding r_def
    by (simp add: client_defs concrete_defs ticker_fire_def refillTokens_step_def Let_def)
  have "GetSLBInstanceTags tags_env0 client0 [''lb-1'', ''lb-2'']
      = ((fst (fst r), None), snd r)"
    using noerr by (simp add: r_def prod_eq_iff)
  from GetSLBInstanceTags_second_call_cached [OF this, of tags_env0] noerr lb2
  show ?thesis by (simp add: r_def prod_eq_iff)
qed

section \<open>Collecting a metric list\<close>










section \<open>Tag labels\<close>

text \<open>
  Claim C8 fails on the code. \<open>buildDynamicSLBLabelValues\<close>, with and without the region
  label, reads the team under the key \<open>team\<close> only and the group and the name under
  \<open>Group\<close> and \<open>Name\<close> only, although its comments announce both casings. A tag
  stored under \<open>Team\<close> gives an empty team label, as do tags stored under \<open>group\<close>
  and \<open>name\<close>; \<open>buildSLBLabelValues\<close> of the same collector reads \<open>Team\<close>.
\<close>

theorem buildDynamicSLBLabelValues_one_casing:
  "buildDynamicSLBLabelValues data (Some [''Team'' \<mapsto> ''infra'']) tagKeys
     = [InstanceID data, Protocol data, Port data, Vip data, [], [], []]
   \<and> buildDynamicSLBLabelValues data (Some [''team'' \<mapsto> ''infra'']) tagKeys
     = [InstanceID data, Protocol data, Port data, Vip data, ''infra'', [], []]
   \<and> buildDynamicSLBLabelValues data (Some [''group'' \<mapsto> ''core'', ''name'' \<mapsto> ''web'']) tagKeys
     = [InstanceID data, Protocol data, Port data, Vip data, [], [], []]
   \<and> buildDynamicSLBLabelValuesWithRegion c data (Some [''Team'' \<mapsto> ''infra'']) ''cn-beijing''
        tagKeys
     = [InstanceID data, Protocol data, Port data, Vip data, ''cn-beijing'', [], [], []]
   \<and> buildSLBLabelValues (bc\<lparr>serviceName := ''slb''\<rparr>) data (Some [''Team'' \<mapsto> ''infra''])
     = [InstanceID data, Protocol data, Port data, Vip data, ''infra'', [], []]"
  by (simp add: buildDynamicSLBLabelValues_def buildDynamicSLBLabelValuesWithRegion_def
      buildSLBLabelValues_def tag_or_empty_def)

section \<open>Health probe\<close>


text \<open>
  Claim C9, as stated, fails: a failed health probe also increments the counter of scrape
  errors. With one collector whose \<open>Collect\<close> returns an error, the counter is 2 after a
  scrape whose probe fails and 1 after the same scrape with a probe that succeeds.
\<close>

theorem health_failure_counted_as_scrape_error:
  "exporter_scrapeErrors (fst (Exporter_Collect lib0
       (scrape_env0\<lparr>health_answer := Some (Remote ''unreachable'')\<rparr>) exporter0 world0)) = 2
   \<and> exporter_scrapeErrors (fst (Exporter_Collect lib0 scrape_env0 exporter0 world0)) = 1"
  by (simp add: exporter_defs redis5_config
      collector_defs collector_inputs client_defs concrete_defs Let_def)

text \<open>
  Claim C9, amended. A failed health probe sets \<open>up\<close> to 0 where a successful one sets
  it to 1, adds one to the counter of scrape errors and logs one more line. Everything
  else is as after a successful probe: the collectors that run, their results and their
  state, the client, the metrics on the channel, the flag of the last scrape error, the
  number of scrapes, the duration and the time of the last scrape.
\<close>

theorem health_failure_changes_up_and_error_count:
  "(let (ef, wf) = Exporter_Collect l (env\<lparr>health_answer := Some err\<rparr>) e w;
        (es, ws) = Exporter_Collect l (env\<lparr>health_answer := None\<rparr>) e w
    in wf = ws
       \<and> up ef = 0 \<and> up es = 1
       \<and> exporter_scrapeErrors ef = exporter_scrapeErrors es + 1
       \<and> collectors ef = collectors es
       \<and> lastScrapeError ef = lastScrapeError es
       \<and> totalScrapes ef = totalScrapes es
       \<and> exporter_scrapeDuration ef = exporter_scrapeDuration es
       \<and> lastScrapeTime ef = lastScrapeTime es
       \<and> ef\<lparr>up := 1, exporter_scrapeErrors := exporter_scrapeErrors es,
             exporter_logged := exporter_logged es\<rparr> = es)"
  by (simp add: Exporter_Collect_def Health_def Let_def split: prod.splits)

end
